theory Spec2Isabelle
  imports Complex_Main "HOL-Library.Multiset"
begin

section \<open>JavaScript numbers\<close>

text \<open>
  The engine of \<^verbatim>\<open>frontend_stuff/swipe.js\<close> computes with JavaScript numbers. Finite
  numbers are modelled as exact reals (rounding error and overflow of IEEE doubles are
  outside the model). The values a division can produce beyond the finite ones are kept:
  \<open>0 / 0\<close> is \<open>NaN\<close>, and a non-zero number divided by zero is an infinity (the divisor is
  taken to be \<open>+0\<close>). The operations below follow the IEEE rules that JavaScript uses.
\<close>

datatype jsnum = Num real | PInf | NInf | NaN

fun js_div :: "real \<Rightarrow> real \<Rightarrow> jsnum" where
  "js_div a b =
     (if b \<noteq> 0 then Num (a / b)
      else if a = 0 then NaN
      else if a > 0 then PInf else NInf)"

fun js_neg :: "jsnum \<Rightarrow> jsnum" where
  "js_neg (Num a) = Num (- a)"
| "js_neg PInf = NInf"
| "js_neg NInf = PInf"
| "js_neg NaN = NaN"

fun js_add :: "jsnum \<Rightarrow> jsnum \<Rightarrow> jsnum" where
  "js_add (Num a) (Num b) = Num (a + b)"
| "js_add NaN _ = NaN"
| "js_add _ NaN = NaN"
| "js_add PInf NInf = NaN"
| "js_add NInf PInf = NaN"
| "js_add PInf _ = PInf"
| "js_add _ PInf = PInf"
| "js_add NInf _ = NInf"
| "js_add _ NInf = NInf"

definition js_sub :: "jsnum \<Rightarrow> jsnum \<Rightarrow> jsnum" where
  "js_sub a b = js_add a (js_neg b)"

fun js_mul :: "jsnum \<Rightarrow> jsnum \<Rightarrow> jsnum" where
  "js_mul (Num a) (Num b) = Num (a * b)"
| "js_mul NaN _ = NaN"
| "js_mul _ NaN = NaN"
| "js_mul (Num a) PInf = (if a = 0 then NaN else if a > 0 then PInf else NInf)"
| "js_mul (Num a) NInf = (if a = 0 then NaN else if a > 0 then NInf else PInf)"
| "js_mul PInf (Num b) = (if b = 0 then NaN else if b > 0 then PInf else NInf)"
| "js_mul NInf (Num b) = (if b = 0 then NaN else if b > 0 then NInf else PInf)"
| "js_mul PInf PInf = PInf"
| "js_mul NInf NInf = PInf"
| "js_mul PInf NInf = NInf"
| "js_mul NInf PInf = NInf"

text \<open>\<^verbatim>\<open>Math.max(a, b)\<close>: \<open>NaN\<close> as soon as one argument is \<open>NaN\<close>.\<close>

fun js_max :: "jsnum \<Rightarrow> jsnum \<Rightarrow> jsnum" where
  "js_max (Num a) (Num b) = Num (max a b)"
| "js_max NaN _ = NaN"
| "js_max _ NaN = NaN"
| "js_max PInf _ = PInf"
| "js_max _ PInf = PInf"
| "js_max NInf b = b"
| "js_max a NInf = a"

text \<open>\<^verbatim>\<open>Math.round(x)\<close> is \<open>\<lfloor>x + 1/2\<rfloor>\<close>, which is \<^const>\<open>round\<close>; it keeps \<open>NaN\<close> and the infinities.\<close>

fun js_round :: "jsnum \<Rightarrow> jsnum" where
  "js_round (Num a) = Num (of_int (round a))"
| "js_round x = x"

text \<open>\<^verbatim>\<open>x || 0\<close>: \<open>NaN\<close> and \<open>0\<close> are falsy.\<close>

fun js_or0 :: "jsnum \<Rightarrow> jsnum" where
  "js_or0 NaN = Num 0"
| "js_or0 x = x"

text \<open>Comparisons with a finite number; every comparison with \<open>NaN\<close> is false.\<close>

fun js_gt :: "jsnum \<Rightarrow> real \<Rightarrow> bool" where
  "js_gt (Num a) r = (a > r)"
| "js_gt PInf r = True"
| "js_gt NInf r = False"
| "js_gt NaN r = False"

fun js_ge :: "jsnum \<Rightarrow> real \<Rightarrow> bool" where
  "js_ge (Num a) r = (a \<ge> r)"
| "js_ge PInf r = True"
| "js_ge NInf r = False"
| "js_ge NaN r = False"

fun js_lt :: "jsnum \<Rightarrow> real \<Rightarrow> bool" where
  "js_lt (Num a) r = (a < r)"
| "js_lt PInf r = False"
| "js_lt NInf r = True"
| "js_lt NaN r = False"

text \<open>\<^verbatim>\<open>x === 0\<close>.\<close>

fun js_is0 :: "jsnum \<Rightarrow> bool" where
  "js_is0 (Num a) = (a = 0)"
| "js_is0 x = False"

section \<open>Listings\<close>

text \<open>
  A listing is the JSON record the backend delivers. A numeric field holds a finite number
  or is absent, a text field holds a string or is absent; \<open>None\<close> is the one value of an
  absent field. The identifier is a string, truthy when it is not empty.
\<close>

record addr =
  city :: "string option"
  displayName :: "string option"
  normalized_city :: "string option"

record listing =
  id_field :: "string option"
  title :: "string option"
  address :: "addr option"
  buyingPrice :: "real option"
  squareMeter :: "real option"
  livingSpace :: "real option"
  rooms :: "real option"

text \<open>Truthiness of a string-valued and of a number-valued field.\<close>

definition truthy_str :: "string option \<Rightarrow> bool" where
  "truthy_str s = (case s of None \<Rightarrow> False | Some t \<Rightarrow> t \<noteq> [])"

definition truthy_num :: "real option \<Rightarrow> bool" where
  "truthy_num v = (case v of None \<Rightarrow> False | Some x \<Rightarrow> x \<noteq> 0)"

text \<open>\<^verbatim>\<open>typeof v === "number" && v > 0\<close>.\<close>

definition positive_number :: "real option \<Rightarrow> bool" where
  "positive_number v = (case v of None \<Rightarrow> False | Some x \<Rightarrow> x > 0)"

text \<open>\<^verbatim>\<open>null\<close> converts to \<open>0\<close> in arithmetic.\<close>

definition num_of :: "real option \<Rightarrow> real" where
  "num_of v = (case v of None \<Rightarrow> 0 | Some x \<Rightarrow> x)"

definition js_or_str :: "string option \<Rightarrow> string option \<Rightarrow> string option" where
  "js_or_str a b = (if truthy_str a then a else b)"

text \<open>
  \<^verbatim>\<open>p.address && (p.address.city || p.address.displayName || p.address._normalized_city)\<close>
\<close>

definition cityOf :: "listing \<Rightarrow> string option" where
  "cityOf p =
     (case address p of
        None \<Rightarrow> None
      | Some a \<Rightarrow> js_or_str (js_or_str (city a) (displayName a)) (normalized_city a))"

text \<open>\<^verbatim>\<open>p.squareMeter || p.livingSpace\<close>\<close>

definition sqmOf :: "listing \<Rightarrow> real option" where
  "sqmOf p = (if truthy_num (squareMeter p) then squareMeter p else livingSpace p)"

text \<open>
  \<^verbatim>\<open>isSameProperty(a, b)\<close>; both arguments are listing objects, so the guard
  \<^verbatim>\<open>!a || !b\<close> never fires.
\<close>

definition isSameProperty :: "listing \<Rightarrow> listing \<Rightarrow> bool" where
  "isSameProperty a b =
     (if truthy_str (id_field a) \<and> truthy_str (id_field b) then id_field a = id_field b
      else title a = title b \<and> buyingPrice a = buyingPrice b)"

section \<open>Preference profile\<close>

record category_stats =
  preferred :: "string option"
  alternatives :: "string list"
  consistency :: int

text \<open>
  The \<^verbatim>\<open>counts\<close> object of \<^verbatim>\<open>calculateCategoryPreferences\<close>, as an association list in
  the order in which the keys are first inserted (the order \<^verbatim>\<open>Object.entries\<close> lists
  keys that are not array indices).
\<close>

fun bump :: "(string \<times> nat) list \<Rightarrow> string \<Rightarrow> (string \<times> nat) list" where
  "bump [] k = [(k, 1)]"
| "bump ((k', c) # al) k = (if k' = k then (k', c + 1) # al else (k', c) # bump al k)"

definition countCategories :: "string list \<Rightarrow> (string \<times> nat) list" where
  "countCategories categories = foldl bump [] categories"

text \<open>\<^verbatim>\<open>.sort((a, b) => b[1] - a[1])\<close>: stable, by descending count.\<close>

definition sortByCount :: "(string \<times> nat) list \<Rightarrow> (string \<times> nat) list" where
  "sortByCount entries = sort_key (\<lambda>e. - int (snd e)) entries"

definition altThreshold :: "nat \<Rightarrow> nat" where
  "altThreshold n = max 2 (nat \<lfloor>real n * 0.15\<rfloor>)"

definition calculateCategoryPreferences :: "string list \<Rightarrow> category_stats" where
  "calculateCategoryPreferences categories =
     (if categories = [] then \<lparr>preferred = None, alternatives = [], consistency = 0\<rparr>
      else
        let sorted = sortByCount (countCategories categories);
            preferredCount = snd (hd sorted);
            threshold = altThreshold (length categories)
        in \<lparr>preferred = Some (fst (hd sorted)),
            alternatives = map fst (filter (\<lambda>e. snd e \<ge> threshold) (tl sorted)),
            consistency = round (real preferredCount / real (length categories) * 100)\<rparr>)"

definition calculateStdDev :: "real list \<Rightarrow> real \<Rightarrow> real" where
  "calculateStdDev values mean =
     (if length values < 2 then 0
      else sqrt (sum_list (map (\<lambda>val. (val - mean) ^ 2) values) / real (length values)))"

record weight_vec =
  city_w :: int
  price_w :: int
  size_w :: int
  rooms_w :: int

definition default_weights :: weight_vec where
  "default_weights = \<lparr>city_w = 25, price_w = 35, size_w = 30, rooms_w = 10\<rparr>"

text \<open>\<^verbatim>\<open>avg > 0 ? (stdDev / avg) : 1\<close>, where \<^verbatim>\<open>null > 0\<close> is false.\<close>

definition cv_of :: "real option \<Rightarrow> real option \<Rightarrow> real" where
  "cv_of stdDev avg =
     (case avg of None \<Rightarrow> 1 | Some a \<Rightarrow> if a > 0 then num_of stdDev / a else 1)"

text \<open>\<^verbatim>\<open>Math.max(0, Math.min(1, 1 - (cv / 0.4)))\<close>\<close>

definition consistencyScore :: "real \<Rightarrow> real" where
  "consistencyScore cv = max 0 (min 1 (1 - cv / 0.4))"

text \<open>\<^verbatim>\<open>Math.round(Math.max(lo, Math.min(hi, base * (score / totalScore) * 4)))\<close>\<close>

definition boundedWeight :: "real \<Rightarrow> real \<Rightarrow> real \<Rightarrow> real \<Rightarrow> real \<Rightarrow> int" where
  "boundedWeight lo hi base score totalScore =
     round (max lo (min hi (base * (score / totalScore) * 4)))"

text \<open>
  \<^verbatim>\<open>calculateDynamicWeights(stats)\<close>; the fields of \<^verbatim>\<open>stats\<close> are the arguments.
\<close>

definition calculateDynamicWeights ::
  "int \<Rightarrow> real option \<Rightarrow> real option \<Rightarrow> real option \<Rightarrow> real option \<Rightarrow>
   real option \<Rightarrow> real option \<Rightarrow> nat \<Rightarrow> weight_vec" where
  "calculateDynamicWeights cityConsistency' stdDevPrice' avgPrice' stdDevSqm' avgSqm'
       stdDevRooms' avgRooms' sampleSize' =
     (if sampleSize' < 3 then default_weights
      else
        let cityScore' = real_of_int cityConsistency' / 100;
            priceScore' = consistencyScore (cv_of stdDevPrice' avgPrice');
            sizeScore' = consistencyScore (cv_of stdDevSqm' avgSqm');
            roomsScore' = consistencyScore (cv_of stdDevRooms' avgRooms');
            totalScore = cityScore' + priceScore' + sizeScore' + roomsScore'
        in if totalScore > 0 then
             let c = boundedWeight 15 35 25 cityScore' totalScore;
                 p = boundedWeight 25 45 35 priceScore' totalScore;
                 s = boundedWeight 20 40 30 sizeScore' totalScore;
                 r = boundedWeight 5 15 10 roomsScore' totalScore;
                 sum = c + p + s + r;
                 c2 = round (real_of_int c / real_of_int sum * 100);
                 p2 = round (real_of_int p / real_of_int sum * 100);
                 s2 = round (real_of_int s / real_of_int sum * 100)
             in \<lparr>city_w = c2, price_w = p2, size_w = s2, rooms_w = 100 - c2 - p2 - s2\<rparr>
           else default_weights)"

definition baseConfidence :: "nat \<Rightarrow> real" where
  "baseConfidence sampleSize' =
     (if sampleSize' \<ge> 10 then 100
      else if sampleSize' \<ge> 7 then 90
      else if sampleSize' \<ge> 5 then 75
      else if sampleSize' \<ge> 3 then 60
      else if sampleSize' \<ge> 2 then 40
      else 20)"

definition calculateConfidenceScore ::
  "nat \<Rightarrow> int \<Rightarrow> real option \<Rightarrow> real option \<Rightarrow> real option \<Rightarrow> real option \<Rightarrow> int" where
  "calculateConfidenceScore sampleSize' cityConsistency' stdDevPrice' avgPrice' stdDevSqm' avgSqm' =
     (let c0 = baseConfidence sampleSize';
          c1 = (if cityConsistency' < 40 then c0 * 0.9 else c0);
          cvPrice = cv_of stdDevPrice' avgPrice';
          cvSize = cv_of stdDevSqm' avgSqm';
          c2 = (if cvPrice > 0.5 \<or> cvSize > 0.5 then c1 * 0.85 else c1)
      in round c2)"

record profile =
  preferredCity :: "string option"
  alternativeCities :: "string list"
  cityConsistency :: int
  minPrice :: "real option"
  maxPrice :: "real option"
  avgPrice :: "real option"
  stdDevPrice :: "real option"
  minSqm :: "real option"
  maxSqm :: "real option"
  avgSqm :: "real option"
  stdDevSqm :: "real option"
  minRooms :: "real option"
  maxRooms :: "real option"
  avgRooms :: "real option"
  stdDevRooms :: "real option"
  weights :: "weight_vec option"
  sampleSize :: nat
  confidence :: int

text \<open>The samples \<^verbatim>\<open>buildPreferenceProfile\<close> extracts from the liked listings.\<close>

definition likedCities :: "listing list \<Rightarrow> string list" where
  "likedCities liked = map the (filter truthy_str (map cityOf liked))"

definition likedPrices :: "listing list \<Rightarrow> real list" where
  "likedPrices liked = map the (filter positive_number (map buyingPrice liked))"

definition likedSqms :: "listing list \<Rightarrow> real list" where
  "likedSqms liked = map the (filter positive_number (map sqmOf liked))"

definition likedRooms :: "listing list \<Rightarrow> real list" where
  "likedRooms liked = map the (filter positive_number (map rooms liked))"

definition average :: "real list \<Rightarrow> real" where
  "average xs = sum_list xs / real (length xs)"

definition opt_if :: "bool \<Rightarrow> 'a \<Rightarrow> 'a option" where
  "opt_if b x = (if b then Some x else None)"

text \<open>
  \<^verbatim>\<open>buildPreferenceProfile(liked)\<close>; the argument is \<open>None\<close> when the caller passes no
  list. The minimum and maximum of prices and areas are the ends of the sorted copy, those
  of the rooms are \<^verbatim>\<open>Math.min\<close> and \<^verbatim>\<open>Math.max\<close>.
\<close>

definition buildPreferenceProfile :: "listing list option \<Rightarrow> profile option" where
  "buildPreferenceProfile likedArg =
     (case likedArg of
        None \<Rightarrow> None
      | Some liked \<Rightarrow>
          if length liked = 0 then None
          else
            let cityStats = calculateCategoryPreferences (likedCities liked);
                prices = likedPrices liked;
                sqms = likedSqms liked;
                rms = likedRooms liked;
                hasP = (length prices > 0);
                hasS = (length sqms > 0);
                hasR = (length rms > 0);
                avgP = opt_if hasP (average prices);
                sdP = opt_if hasP (calculateStdDev prices (average prices));
                avgS = opt_if hasS (average sqms);
                sdS = opt_if hasS (calculateStdDev sqms (average sqms));
                avgR = opt_if hasR (average rms);
                sdR = opt_if hasR (calculateStdDev rms (average rms))
            in Some \<lparr>
                 preferredCity = preferred cityStats,
                 alternativeCities = alternatives cityStats,
                 cityConsistency = consistency cityStats,
                 minPrice = opt_if hasP (hd (sort prices)),
                 maxPrice = opt_if hasP (last (sort prices)),
                 avgPrice = avgP,
                 stdDevPrice = sdP,
                 minSqm = opt_if hasS (hd (sort sqms)),
                 maxSqm = opt_if hasS (last (sort sqms)),
                 avgSqm = avgS,
                 stdDevSqm = sdS,
                 minRooms = opt_if hasR (Min (set rms)),
                 maxRooms = opt_if hasR (Max (set rms)),
                 avgRooms = avgR,
                 stdDevRooms = sdR,
                 weights = Some (calculateDynamicWeights (consistency cityStats)
                                   sdP avgP sdS avgS sdR avgR (length liked)),
                 sampleSize = length liked,
                 confidence = calculateConfidenceScore (length liked) (consistency cityStats)
                                sdP avgP sdS avgS\<rparr>)"

section \<open>Match score\<close>

definition cityScore :: "listing \<Rightarrow> profile \<Rightarrow> real" where
  "cityScore p prof =
     (if truthy_str (cityOf p) \<and> truthy_str (preferredCity prof) then
        (if cityOf p = preferredCity prof then 100
         else if the (cityOf p) \<in> set (alternativeCities prof) then 70
         else 0)
      else 0)"

text \<open>
  The range scoring that \<^verbatim>\<open>calculateMatchScore\<close> writes out twice, for the price with a
  least buffer of 50000 and for the area with a least buffer of 15.
\<close>

definition rangeScore :: "real \<Rightarrow> real \<Rightarrow> real \<Rightarrow> real \<Rightarrow> real \<Rightarrow> jsnum" where
  "rangeScore minBuffer v mn mx avg =
     (let range = mx - mn;
          buffer = max (range * 0.3) minBuffer;
          lower = mn - buffer;
          upper = mx + buffer
      in if v \<ge> mn \<and> v \<le> mx then
           (let distanceFromAvg = \<bar>v - avg\<bar>;
                maxDistanceFromAvg = max (avg - mn) (mx - avg)
            in js_max (Num 80)
                 (js_sub (Num 100) (js_mul (js_div distanceFromAvg maxDistanceFromAvg) (Num 20))))
         else if v \<ge> lower \<and> v \<le> upper then
           (let distanceFromRange = (if v < mn then mn - v else v - mx)
            in js_max (Num 50)
                 (js_sub (Num 80) (js_mul (js_div distanceFromRange buffer) (Num 30))))
         else Num 0)"

definition priceScore :: "listing \<Rightarrow> profile \<Rightarrow> jsnum" where
  "priceScore p prof =
     (if positive_number (buyingPrice p) \<and> truthy_num (minPrice prof)
         \<and> truthy_num (maxPrice prof) \<and> truthy_num (avgPrice prof)
      then rangeScore 50000 (the (buyingPrice p))
             (the (minPrice prof)) (the (maxPrice prof)) (the (avgPrice prof))
      else Num 0)"

definition sizeScore :: "listing \<Rightarrow> profile \<Rightarrow> jsnum" where
  "sizeScore p prof =
     (if positive_number (sqmOf p) \<and> truthy_num (minSqm prof)
         \<and> truthy_num (maxSqm prof) \<and> truthy_num (avgSqm prof)
      then (if the (sqmOf p) < 15 then Num 0
            else rangeScore 15 (the (sqmOf p))
                   (the (minSqm prof)) (the (maxSqm prof)) (the (avgSqm prof)))
      else Num 0)"

definition roomsScore :: "listing \<Rightarrow> profile \<Rightarrow> real" where
  "roomsScore p prof =
     (if positive_number (rooms p) \<and> avgRooms prof \<noteq> None then
        (let roomDiff = \<bar>the (rooms p) - the (avgRooms prof)\<bar>
         in if roomDiff = 0 then 100
            else if roomDiff \<le> 1 then 70
            else if roomDiff \<le> 2 then 40
            else 0)
      else 0)"

text \<open>\<^verbatim>\<open>profile.weights || { city: 25, price: 35, size: 30, rooms: 10 }\<close>\<close>

definition weightsOf :: "profile \<Rightarrow> weight_vec" where
  "weightsOf prof = (case weights prof of None \<Rightarrow> default_weights | Some w \<Rightarrow> w)"

text \<open>The weighted average \<^verbatim>\<open>totalScore\<close> of \<^verbatim>\<open>calculateMatchScore\<close>.\<close>

definition weightedTotal :: "weight_vec \<Rightarrow> jsnum \<Rightarrow> jsnum \<Rightarrow> jsnum \<Rightarrow> jsnum \<Rightarrow> jsnum" where
  "weightedTotal w sc sp ss sr =
     js_add
       (js_add
          (js_add (js_mul (js_or0 sc) (Num (real_of_int (city_w w) / 100)))
                  (js_mul (js_or0 sp) (Num (real_of_int (price_w w) / 100))))
          (js_mul (js_or0 ss) (Num (real_of_int (size_w w) / 100))))
       (js_mul (js_or0 sr) (Num (real_of_int (rooms_w w) / 100)))"

definition calculateMatchScore :: "listing \<Rightarrow> profile option \<Rightarrow> jsnum" where
  "calculateMatchScore p profileArg =
     (case profileArg of
        None \<Rightarrow> Num 0
      | Some prof \<Rightarrow>
          let sc = Num (cityScore p prof);
              sp = priceScore p prof;
              ss = sizeScore p prof;
              sr = Num (roomsScore p prof);
              totalScore = weightedTotal (weightsOf prof) sc sp ss sr
          in if js_is0 sp \<or> js_is0 ss then js_round (js_mul totalScore (Num 0.3))
             else if length (filter (\<lambda>s. js_gt s 0) [sc, sp, ss, sr]) < 3
               then js_round (js_mul totalScore (Num 0.5))
             else js_round totalScore)"

section \<open>Recommendations\<close>

record scored =
  property :: listing
  score :: jsnum
  isSurprise :: bool

definition mkScored :: "profile \<Rightarrow> listing \<Rightarrow> scored" where
  "mkScored prof p = \<lparr>property = p, score = calculateMatchScore p (Some prof), isSurprise = False\<rparr>"

text \<open>
  \<^verbatim>\<open>.sort((a, b) => b.score - a.score)\<close>: a stable sort; a pair is exchanged only when the
  comparator is positive.
\<close>

fun insertByScore :: "scored \<Rightarrow> scored list \<Rightarrow> scored list" where
  "insertByScore x [] = [x]"
| "insertByScore x (y # ys) =
     (if js_gt (js_sub (score y) (score x)) 0 then y # insertByScore x ys else x # y # ys)"

definition sortByScore :: "scored list \<Rightarrow> scored list" where
  "sortByScore xs = foldr insertByScore xs []"

definition isLiked :: "listing list \<Rightarrow> listing \<Rightarrow> bool" where
  "isLiked likedProperties' p = list_ex (\<lambda>lp. isSameProperty lp p) likedProperties'"

text \<open>The list \<^verbatim>\<open>scoredProperties\<close> before the surprise is added.\<close>

definition primaryList :: "listing list \<Rightarrow> listing list \<Rightarrow> profile \<Rightarrow> scored list" where
  "primaryList allProperties' likedProperties' prof =
     sortByScore
       (filter (\<lambda>item. js_ge (score item) 60)
          (map (mkScored prof)
             (filter (\<lambda>p. \<not> isLiked likedProperties' p) allProperties')))"

definition surpriseProperties :: "listing list \<Rightarrow> listing list \<Rightarrow> profile \<Rightarrow> scored list" where
  "surpriseProperties allProperties' likedProperties' prof =
     sortByScore
       (filter (\<lambda>item. js_ge (score item) 45 \<and> js_lt (score item) 60)
          (map (mkScored prof)
             (filter
                (\<lambda>p. \<not> isLiked likedProperties' p
                    \<and> \<not> list_ex (\<lambda>item. isSameProperty (property item) p)
                           (primaryList allProperties' likedProperties' prof))
                allProperties')))"

text \<open>\<^verbatim>\<open>scoredProperties\<close> after the surprise has been pushed.\<close>

definition rankedList :: "listing list \<Rightarrow> listing list \<Rightarrow> profile \<Rightarrow> scored list" where
  "rankedList allProperties' likedProperties' prof =
     (let scoredProperties = primaryList allProperties' likedProperties' prof;
          surprises = surpriseProperties allProperties' likedProperties' prof
      in if length surprises > 0 \<and> confidence prof \<ge> 60
         then scoredProperties @ [(hd surprises)\<lparr>isSurprise := True\<rparr>]
         else scoredProperties)"

datatype rec_view = Hidden | NeedMoreData int | Shown "scored list"

definition renderRecommendations :: "listing list \<Rightarrow> listing list \<Rightarrow> rec_view" where
  "renderRecommendations allProperties' likedProperties' =
     (case buildPreferenceProfile (Some likedProperties') of
        None \<Rightarrow> Hidden
      | Some prof \<Rightarrow>
          if length allProperties' = 0 then Hidden
          else
            let scoredProperties = rankedList allProperties' likedProperties' prof
            in if length scoredProperties = 0 then
                 (if confidence prof < 60 then NeedMoreData (confidence prof) else Hidden)
               else Shown (take 10 scoredProperties))"

section \<open>Swipe session\<close>

record session =
  allProperties :: "listing list"
  properties :: "listing list"
  currentIndex :: nat
  likedProperties :: "listing list"

definition MAX_CARDS :: nat where
  "MAX_CARDS = 15"

definition MAX_TOTAL_SWIPES :: nat where
  "MAX_TOTAL_SWIPES = 50"

text \<open>
  \<^verbatim>\<open>pickRandomSubset(arr, n)\<close>. The random source is explicit: \<open>rnd k\<close> is the value of the
  \<open>k\<close>-th call of \<^verbatim>\<open>Math.random()\<close>. The loop runs \<open>i\<close> from \<open>length - 1\<close> down to \<open>1\<close> and
  exchanges the entries at \<open>i\<close> and \<open>j = \<lfloor>random * (i + 1)\<rfloor>\<close>.
\<close>

fun shuffleLoop :: "(nat \<Rightarrow> real) \<Rightarrow> nat \<Rightarrow> nat \<Rightarrow> 'a list \<Rightarrow> 'a list" where
  "shuffleLoop rnd k 0 copy = copy"
| "shuffleLoop rnd k (Suc i) copy =
     (let j = nat \<lfloor>rnd k * real (Suc i + 1)\<rfloor>
      in shuffleLoop rnd (Suc k) i (copy[Suc i := copy ! j, j := copy ! Suc i]))"

definition pickRandomSubset :: "(nat \<Rightarrow> real) \<Rightarrow> 'a list \<Rightarrow> nat \<Rightarrow> 'a list" where
  "pickRandomSubset rnd arr n =
     take (min n (length arr)) (shuffleLoop rnd 0 (length arr - 1) arr)"

definition unseenProperties :: "session \<Rightarrow> listing list" where
  "unseenProperties s =
     filter (\<lambda>p. \<not> list_ex (\<lambda>shown. isSameProperty shown p) (properties s)) (allProperties s)"

datatype load_outcome = MaxReached | SeenEverything | Loaded nat

text \<open>Both terminal cards offer the single button \<^verbatim>\<open>showResultsNow()\<close>.\<close>

fun forcesResults :: "load_outcome \<Rightarrow> bool" where
  "forcesResults MaxReached = True"
| "forcesResults SeenEverything = True"
| "forcesResults (Loaded n) = False"

definition loadMoreProperties :: "(nat \<Rightarrow> real) \<Rightarrow> session \<Rightarrow> load_outcome \<times> session" where
  "loadMoreProperties rnd s =
     (if length (properties s) \<ge> MAX_TOTAL_SWIPES then (MaxReached, s)
      else
        let unseen = unseenProperties s
        in if length unseen = 0 then (SeenEverything, s)
           else
             let remainingSlots = MAX_TOTAL_SWIPES - length (properties s);
                 batchSize = min 15 (min remainingSlots (length unseen));
                 moreProperties = pickRandomSubset rnd unseen batchSize
             in (Loaded (length moreProperties),
                 s\<lparr>properties := properties s @ moreProperties\<rparr>))"

text \<open>The start of a session in \<^verbatim>\<open>initSwipeMode\<close>, and the two swipe handlers.\<close>

definition startSession :: "(nat \<Rightarrow> real) \<Rightarrow> listing list \<Rightarrow> session" where
  "startSession rnd catalog =
     \<lparr>allProperties = catalog,
      properties = pickRandomSubset rnd catalog MAX_CARDS,
      currentIndex = 0,
      likedProperties = []\<rparr>"

definition handleLike :: "session \<Rightarrow> session" where
  "handleLike s =
     (if currentIndex s \<ge> length (properties s) then s
      else s\<lparr>likedProperties := likedProperties s @ [properties s ! currentIndex s],
             currentIndex := currentIndex s + 1\<rparr>)"

definition handleNope :: "session \<Rightarrow> session" where
  "handleNope s =
     (if currentIndex s \<ge> length (properties s) then s
      else s\<lparr>currentIndex := currentIndex s + 1\<rparr>)"

definition validRandom :: "(nat \<Rightarrow> real) \<Rightarrow> bool" where
  "validRandom rnd = (\<forall>k. 0 \<le> rnd k \<and> rnd k < 1)"

text \<open>The session states the handlers can reach from a start.\<close>

inductive reachable :: "session \<Rightarrow> bool" where
  start: "validRandom rnd \<Longrightarrow> reachable (startSession rnd catalog)"
| like: "reachable s \<Longrightarrow> reachable (handleLike s)"
| nope: "reachable s \<Longrightarrow> reachable (handleNope s)"
| load: "reachable s \<Longrightarrow> validRandom rnd \<Longrightarrow> reachable (snd (loadMoreProperties rnd s))"

section \<open>Sample listings\<close>

text \<open>Concrete listings and a concrete profile, used to run the definitions.\<close>

definition mkListing ::
  "string \<Rightarrow> string \<Rightarrow> string \<Rightarrow> real \<Rightarrow> real \<Rightarrow> real \<Rightarrow> listing" where
  "mkListing ident ttl cty price sqm rms =
     \<lparr>id_field = Some ident, title = Some ttl,
      address = Some \<lparr>city = Some cty, displayName = None, normalized_city = None\<rparr>,
      buyingPrice = Some price, squareMeter = Some sqm, livingSpace = None,
      rooms = Some rms\<rparr>"

definition flatA :: listing where
  "flatA = mkListing ''a1'' ''Flat A'' ''Berlin'' 300000 60 2"

definition flatTwin :: listing where
  "flatTwin = mkListing ''a2'' ''Flat A2'' ''Berlin'' 300000 60 2"

definition flatTiny :: listing where
  "flatTiny = mkListing ''a3'' ''Flat A3'' ''Berlin'' 300000 10 2"

definition flatB :: listing where
  "flatB = mkListing ''b1'' ''Flat B'' ''Berlin'' 250000 50 2"

definition flatC :: listing where
  "flatC = mkListing ''c1'' ''Flat C'' ''Berlin'' 350000 70 2"

definition flatWild :: listing where
  "flatWild = mkListing ''w1'' ''Flat W'' ''Potsdam'' 380000 80 2"

definition flatWild2 :: listing where
  "flatWild2 = mkListing ''w2'' ''Flat W2'' ''Potsdam'' 390000 80 2"

text \<open>A listing as the backend sends it when it has no identifier.\<close>

definition withoutId :: "listing \<Rightarrow> listing" where
  "withoutId p = p\<lparr>id_field := None\<rparr>"

text \<open>A second record of \<open>flatB\<close>, without identifier and with another room count.\<close>

definition flatBcopy :: listing where
  "flatBcopy = (withoutId flatB)\<lparr>rooms := Some 3\<rparr>"

definition sampleProfile :: profile where
  "sampleProfile =
     \<lparr>preferredCity = Some ''Berlin'', alternativeCities = [], cityConsistency = 100,
      minPrice = Some 250000, maxPrice = Some 350000, avgPrice = Some 300000,
      stdDevPrice = Some 40000,
      minSqm = Some 50, maxSqm = Some 70, avgSqm = Some 60, stdDevSqm = Some 8,
      minRooms = Some 2, maxRooms = Some 2, avgRooms = Some 2, stdDevRooms = Some 0,
      weights = Some default_weights, sampleSize = 3, confidence = 60\<rparr>"

text \<open>Four liked listings in one city whose prices, areas and room counts vary widely.\<close>

definition spread1 :: listing where
  "spread1 = mkListing ''s1'' ''Studio 1'' ''Berlin'' 100000 30 1"

definition spread2 :: listing where
  "spread2 = mkListing ''s2'' ''Studio 2'' ''Berlin'' 100000 30 1"

definition spread3 :: listing where
  "spread3 = mkListing ''s3'' ''Loft 3'' ''Berlin'' 500000 90 4"

definition spread4 :: listing where
  "spread4 = mkListing ''s4'' ''Loft 4'' ''Berlin'' 500000 90 4"

text \<open>A catalog of sixteen listings and a random source that leaves the order as it is.\<close>

definition catalogEntry :: "string \<Rightarrow> listing" where
  "catalogEntry ident = mkListing ident ''Flat'' ''Berlin'' 300000 60 2"

definition catalog16 :: "listing list" where
  "catalog16 = map catalogEntry
     [''c01'', ''c02'', ''c03'', ''c04'', ''c05'', ''c06'', ''c07'', ''c08'',
      ''c09'', ''c10'', ''c11'', ''c12'', ''c13'', ''c14'', ''c15'', ''c16'']"

definition steadyRandom :: "nat \<Rightarrow> real" where
  "steadyRandom k = 99 / 100"

section \<open>Confidence\<close>

lemma baseConfidence_mono: "m \<le> n \<Longrightarrow> baseConfidence m \<le> baseConfidence n"
  by (simp add: baseConfidence_def)

text \<open>
  C5: with the location consistency and the price and area statistics held fixed, the
  confidence does not decrease when the number of liked listings grows.
\<close>

theorem confidence_monotone:
  "m \<le> n \<Longrightarrow>
     calculateConfidenceScore m cc sdP avgP sdS avgS
       \<le> calculateConfidenceScore n cc sdP avgP sdS avgS"
proof -
  assume mn: "m \<le> n"
  have b: "baseConfidence m \<le> baseConfidence n"
    using mn by (rule baseConfidence_mono)
  have b9: "baseConfidence m * 0.9 \<le> baseConfidence n * 0.9"
    using b by simp
  show ?thesis
    unfolding calculateConfidenceScore_def Let_def
    using b b9 by (auto intro!: round_mono)
qed

theorem confidence_monotone_witness:
  "(2::nat) \<le> 3 \<and> calculateConfidenceScore 2 100 (Some 0) (Some 300000) (Some 0) (Some 60) = 40
     \<and> calculateConfidenceScore 3 100 (Some 0) (Some 300000) (Some 0) (Some 60) = 60"
  using confidence_monotone [of 2 3 100 "Some 0" "Some 300000" "Some 0" "Some 60"]
  by (simp add: calculateConfidenceScore_def baseConfidence_def cv_of_def num_of_def)

section \<open>Building a profile\<close>

text \<open>
  C9: building a profile from no liked listings (an absent or an empty list) returns no
  profile; the model has no other outcome than a profile or none, and none is returned
  for exactly these inputs.
\<close>

theorem no_profile_without_likes:
  "buildPreferenceProfile likedArg = None \<longleftrightarrow> (likedArg = None \<or> likedArg = Some [])"
  by (cases likedArg) (simp_all add: buildPreferenceProfile_def Let_def)

theorem no_profile_without_likes_witness:
  "buildPreferenceProfile None = None \<and> buildPreferenceProfile (Some []) = None"
  using no_profile_without_likes [of None] no_profile_without_likes [of "Some []"]
  by simp

section \<open>Running the definitions\<close>

text \<open>The unfolding sets that evaluate the model on concrete listings.\<close>

lemmas listing_defs = flatA_def flatTwin_def flatTiny_def flatB_def flatC_def flatWild_def
  flatWild2_def flatBcopy_def withoutId_def spread1_def spread2_def spread3_def spread4_def
  mkListing_def cityOf_def sqmOf_def truthy_str_def truthy_num_def positive_number_def
  js_or_str_def num_of_def

lemmas score_defs = calculateMatchScore_def cityScore_def priceScore_def sizeScore_def
  roomsScore_def rangeScore_def weightsOf_def default_weights_def weightedTotal_def js_sub_def

lemmas profile_defs = buildPreferenceProfile_def likedCities_def likedPrices_def likedSqms_def
  likedRooms_def average_def opt_if_def calculateStdDev_def calculateCategoryPreferences_def
  countCategories_def sortByCount_def altThreshold_def calculateDynamicWeights_def
  calculateConfidenceScore_def baseConfidence_def cv_of_def consistencyScore_def
  boundedWeight_def

lemma score_tiny_sample: "calculateMatchScore flatTiny (Some sampleProfile) = Num 21"
  by (simp add: listing_defs score_defs sampleProfile_def Let_def)

lemma singleProfile:
  "buildPreferenceProfile (Some [flatA]) =
     Some \<lparr>preferredCity = Some ''Berlin'', alternativeCities = [], cityConsistency = 100,
      minPrice = Some 300000, maxPrice = Some 300000, avgPrice = Some 300000,
      stdDevPrice = Some 0,
      minSqm = Some 60, maxSqm = Some 60, avgSqm = Some 60, stdDevSqm = Some 0,
      minRooms = Some 2, maxRooms = Some 2, avgRooms = Some 2, stdDevRooms = Some 0,
      weights = Some default_weights, sampleSize = 1, confidence = 20\<rparr>"
  by (simp add: listing_defs profile_defs Let_def)

lemma priceScore_twin_single: "priceScore flatTwin (the (buildPreferenceProfile (Some [flatA]))) = NaN"
  by (simp add: singleProfile) (simp add: listing_defs score_defs Let_def)

lemma score_twin_single: "calculateMatchScore flatTwin (buildPreferenceProfile (Some [flatA])) = Num 18"
  by (simp add: singleProfile) (simp add: listing_defs score_defs Let_def round_def)

lemma sizeScore_twin_single: "sizeScore flatTwin (the (buildPreferenceProfile (Some [flatA]))) = NaN"
  by (simp add: singleProfile) (simp add: listing_defs score_defs Let_def)

lemma sqrt_2500000000: "sqrt 2500000000 = 50000"
  by (rule real_sqrt_unique) simp_all

lemma sqrt_100: "sqrt 100 = 10"
  by (rule real_sqrt_unique) simp_all

lemma pairProfile:
  "buildPreferenceProfile (Some [flatB, flatC]) =
     Some \<lparr>preferredCity = Some ''Berlin'', alternativeCities = [], cityConsistency = 100,
      minPrice = Some 250000, maxPrice = Some 350000, avgPrice = Some 300000,
      stdDevPrice = Some 50000,
      minSqm = Some 50, maxSqm = Some 70, avgSqm = Some 60, stdDevSqm = Some 10,
      minRooms = Some 2, maxRooms = Some 2, avgRooms = Some 2, stdDevRooms = Some 0,
      weights = Some default_weights, sampleSize = 2, confidence = 40\<rparr>"
  by (simp add: listing_defs profile_defs Let_def sqrt_2500000000 sqrt_100)

lemma score_twin_sample: "calculateMatchScore flatTwin (Some sampleProfile) = Num 100"
  by (simp add: listing_defs score_defs sampleProfile_def Let_def)

lemma score_wild_sample: "calculateMatchScore flatWild (Some sampleProfile) = Num 50"
  by (simp add: listing_defs score_defs sampleProfile_def Let_def round_def)

lemma score_wild2_sample: "calculateMatchScore flatWild2 (Some sampleProfile) = Num 48"
  by (simp add: listing_defs score_defs sampleProfile_def Let_def round_def)

lemma score_twin_pair:
  "calculateMatchScore flatTwin (buildPreferenceProfile (Some [flatB, flatC])) = Num 100"
  by (simp add: pairProfile) (simp add: listing_defs score_defs Let_def)

lemma liked_sample:
  "isLiked [flatA] flatA" "\<not> isLiked [flatA] flatTwin" "\<not> isLiked [flatA] flatTiny"
  "\<not> isLiked [flatA] flatWild" "\<not> isLiked [flatA] flatWild2"
  by (simp_all add: isLiked_def isSameProperty_def listing_defs)

lemma same_sample:
  "\<not> isSameProperty flatTwin flatTiny" "\<not> isSameProperty flatTwin flatWild"
  "\<not> isSameProperty flatTwin flatWild2"
  "isSameProperty flatTwin flatTwin"
  by (simp_all add: isSameProperty_def listing_defs)

lemma primary_sample:
  "primaryList [flatA, flatTwin, flatTiny, flatWild2, flatWild] [flatA] sampleProfile =
     [\<lparr>property = flatTwin, score = Num 100, isSurprise = False\<rparr>]"
  by (simp add: primaryList_def liked_sample mkScored_def score_twin_sample score_wild_sample
      score_wild2_sample score_tiny_sample sortByScore_def)

lemma surprise_sample:
  "surpriseProperties [flatA, flatTwin, flatTiny, flatWild2, flatWild] [flatA] sampleProfile =
     [\<lparr>property = flatWild, score = Num 50, isSurprise = False\<rparr>,
      \<lparr>property = flatWild2, score = Num 48, isSurprise = False\<rparr>]"
  by (simp add: surpriseProperties_def primary_sample liked_sample same_sample mkScored_def
      score_twin_sample score_wild_sample score_wild2_sample score_tiny_sample sortByScore_def
      js_sub_def)

lemma confidence_sample: "confidence sampleProfile = 60"
  by (simp add: sampleProfile_def)

lemma ranked_sample:
  "rankedList [flatA, flatTwin, flatTiny, flatWild2, flatWild] [flatA] sampleProfile =
     [\<lparr>property = flatTwin, score = Num 100, isSurprise = False\<rparr>,
      \<lparr>property = flatWild, score = Num 50, isSurprise = True\<rparr>]"
  by (simp add: rankedList_def primary_sample surprise_sample Let_def confidence_sample)

lemma liked_pair:
  "isLiked [flatB, flatC] flatB" "isLiked [flatB, flatC] flatC"
  "\<not> isLiked [flatB, flatC] flatTwin"
  by (simp_all add: isLiked_def isSameProperty_def listing_defs)

lemma shown_pair:
  "renderRecommendations [flatB, flatC, flatTwin] [flatB, flatC] =
     Shown [\<lparr>property = flatTwin, score = Num 100, isSurprise = False\<rparr>]"
proof -
  obtain prof where b: "buildPreferenceProfile (Some [flatB, flatC]) = Some prof"
    and c: "confidence prof = 40"
    by (simp add: pairProfile)
  have s: "calculateMatchScore flatTwin (Some prof) = Num 100"
    using score_twin_pair b by simp
  have p: "primaryList [flatB, flatC, flatTwin] [flatB, flatC] prof =
      [\<lparr>property = flatTwin, score = Num 100, isSurprise = False\<rparr>]"
    by (simp add: primaryList_def liked_pair mkScored_def s sortByScore_def)
  have r: "rankedList [flatB, flatC, flatTwin] [flatB, flatC] prof =
      [\<lparr>property = flatTwin, score = Num 100, isSurprise = False\<rparr>]"
    by (simp add: rankedList_def p c Let_def)
  show ?thesis
    by (simp add: renderRecommendations_def b r Let_def)
qed

section \<open>Match score of an implausible area\<close>

text \<open>
  C3: a listing whose area value is 10 has its area dimension scored 0 whatever the
  profile is, and its match score is the weighted sum (with area contribution 0) times
  0.3, rounded.
\<close>

theorem tiny_area_scores_zero:
  "sqmOf p = Some 10 \<Longrightarrow>
     sizeScore p prof = Num 0
     \<and> calculateMatchScore p (Some prof) =
         js_round (js_mul
           (weightedTotal (weightsOf prof) (Num (cityScore p prof)) (priceScore p prof)
              (Num 0) (Num (roomsScore p prof)))
           (Num 0.3))"
  by (simp add: sizeScore_def calculateMatchScore_def Let_def positive_number_def)

theorem tiny_area_scores_zero_witness:
  "sqmOf flatTiny = Some 10 \<and> sizeScore flatTiny sampleProfile = Num 0
   \<and> calculateMatchScore flatTiny (Some sampleProfile) = Num 21"
  using tiny_area_scores_zero [of flatTiny sampleProfile]
  by (simp add: listing_defs score_defs sampleProfile_def Let_def)

section \<open>Recommendations and liked listings\<close>

lemma isSameProperty_refl: "isSameProperty p p"
  by (simp add: isSameProperty_def)

lemma set_insertByScore: "set (insertByScore x ys) = insert x (set ys)"
  by (induction ys) auto

lemma set_sortByScore: "set (sortByScore xs) = set xs"
  by (induction xs) (simp_all add: sortByScore_def set_insertByScore)

lemma isLiked_member: "p \<in> set liked \<Longrightarrow> isLiked liked p"
  unfolding isLiked_def list_ex_iff using isSameProperty_refl by blast

lemma primaryList_item:
  "item \<in> set (primaryList all liked prof) \<Longrightarrow>
     property item \<in> set all \<and> \<not> isLiked liked (property item)
     \<and> js_ge (score item) 60 \<and> \<not> isSurprise item
     \<and> score item = calculateMatchScore (property item) (Some prof)"
  by (auto simp: primaryList_def set_sortByScore mkScored_def)

lemma surpriseProperties_item:
  "item \<in> set (surpriseProperties all liked prof) \<Longrightarrow>
     property item \<in> set all \<and> \<not> isLiked liked (property item)
     \<and> \<not> list_ex (\<lambda>it. isSameProperty (property it) (property item)) (primaryList all liked prof)
     \<and> js_ge (score item) 45 \<and> js_lt (score item) 60
     \<and> score item = calculateMatchScore (property item) (Some prof)"
  by (auto simp: surpriseProperties_def set_sortByScore mkScored_def)

lemma rankedList_item:
  "item \<in> set (rankedList all liked prof) \<Longrightarrow>
     property item \<in> set all \<and> \<not> isLiked liked (property item)"
proof -
  assume a: "item \<in> set (rankedList all liked prof)"
  show ?thesis
  proof (cases "item \<in> set (primaryList all liked prof)")
    case True
    then show ?thesis using primaryList_item by blast
  next
    case False
    with a have ne: "surpriseProperties all liked prof \<noteq> []"
      and it: "item = (hd (surpriseProperties all liked prof))\<lparr>isSurprise := True\<rparr>"
      by (auto simp: rankedList_def Let_def split: if_splits)
    have "hd (surpriseProperties all liked prof) \<in> set (surpriseProperties all liked prof)"
      using ne by simp
    then show ?thesis using surpriseProperties_item it by fastforce
  qed
qed

lemma shown_subset:
  "renderRecommendations all liked = Shown items \<Longrightarrow>
     \<exists>prof. buildPreferenceProfile (Some liked) = Some prof
       \<and> items = take 10 (rankedList all liked prof)"
  by (auto simp: renderRecommendations_def Let_def split: option.splits if_splits)

text \<open>
  C7: no entry of the ranked list (the primary entries and the surprise), and no entry of
  the list that is shown, is a liked listing: none is the same property as a liked one and
  none is an element of the liked list.
\<close>

theorem ranked_excludes_liked:
  "(item \<in> set (rankedList all liked prof) \<longrightarrow>
       \<not> isLiked liked (property item) \<and> property item \<notin> set liked)
   \<and> (renderRecommendations all liked = Shown items \<and> item \<in> set items \<longrightarrow>
       \<not> isLiked liked (property item) \<and> property item \<notin> set liked)"
proof (intro conjI impI)
  assume "item \<in> set (rankedList all liked prof)"
  then show "\<not> isLiked liked (property item)" using rankedList_item by blast
  then show "property item \<notin> set liked" using isLiked_member by blast
next
  assume a: "renderRecommendations all liked = Shown items \<and> item \<in> set items"
  then obtain pr where "items = take 10 (rankedList all liked pr)"
    using shown_subset by blast
  with a have "item \<in> set (rankedList all liked pr)"
    by (auto dest: in_set_takeD)
  then show "\<not> isLiked liked (property item)" using rankedList_item by blast
  then show "property item \<notin> set liked" using isLiked_member by blast
qed

theorem ranked_excludes_liked_witness:
  "\<lparr>property = flatTwin, score = Num 100, isSurprise = False\<rparr>
      \<in> set (rankedList [flatA, flatTwin, flatTiny, flatWild2, flatWild] [flatA] sampleProfile)
   \<and> renderRecommendations [flatB, flatC, flatTwin] [flatB, flatC] =
       Shown [\<lparr>property = flatTwin, score = Num 100, isSurprise = False\<rparr>]
   \<and> \<not> isLiked [flatA] flatTwin \<and> flatTwin \<notin> set [flatA]
   \<and> \<not> isLiked [flatB, flatC] flatTwin \<and> flatTwin \<notin> set [flatB, flatC]"
  using ranked_excludes_liked [of "\<lparr>property = flatTwin, score = Num 100, isSurprise = False\<rparr>"
      "[flatA, flatTwin, flatTiny, flatWild2, flatWild]" "[flatA]" sampleProfile]
    ranked_excludes_liked [of "\<lparr>property = flatTwin, score = Num 100, isSurprise = False\<rparr>"
      "[flatB, flatC, flatTwin]" "[flatB, flatC]" sampleProfile
      "[\<lparr>property = flatTwin, score = Num 100, isSurprise = False\<rparr>]"]
  by (simp add: ranked_sample shown_pair)

section \<open>Listing identity\<close>

text \<open>
  C10: listing identity compares the identifiers only when both listings carry one;
  otherwise two listings are the same exactly when title and buying price are equal. So a
  candidate without identifier that has the title and the price of a liked listing without
  identifier is in no ranked list and in no list that is shown.
\<close>

theorem same_property_rule:
  "(truthy_str (id_field a) \<and> truthy_str (id_field b) \<longrightarrow>
      isSameProperty a b = (id_field a = id_field b))
   \<and> (\<not> (truthy_str (id_field a) \<and> truthy_str (id_field b)) \<longrightarrow>
      isSameProperty a b = (title a = title b \<and> buyingPrice a = buyingPrice b))
   \<and> (lp \<in> set liked \<and> \<not> truthy_str (id_field lp) \<and> \<not> truthy_str (id_field p)
        \<and> title lp = title p \<and> buyingPrice lp = buyingPrice p \<longrightarrow>
      p \<notin> property ` set (rankedList all liked prof)
      \<and> (renderRecommendations all liked = Shown items \<longrightarrow> p \<notin> property ` set items))"
proof (intro conjI impI)
  assume "truthy_str (id_field a) \<and> truthy_str (id_field b)"
  then show "isSameProperty a b = (id_field a = id_field b)"
    by (simp add: isSameProperty_def)
next
  assume "\<not> (truthy_str (id_field a) \<and> truthy_str (id_field b))"
  then show "isSameProperty a b = (title a = title b \<and> buyingPrice a = buyingPrice b)"
    by (auto simp: isSameProperty_def)
next
  assume h: "lp \<in> set liked \<and> \<not> truthy_str (id_field lp) \<and> \<not> truthy_str (id_field p)
        \<and> title lp = title p \<and> buyingPrice lp = buyingPrice p"
  then have "isSameProperty lp p" by (simp add: isSameProperty_def)
  with h have lk: "isLiked liked p"
    unfolding isLiked_def list_ex_iff by blast
  show "p \<notin> property ` set (rankedList all liked prof)"
    using lk rankedList_item by blast
  assume r: "renderRecommendations all liked = Shown items"
  then obtain pr where "items = take 10 (rankedList all liked pr)"
    using shown_subset by blast
  then have "set items \<subseteq> set (rankedList all liked pr)"
    by (simp add: set_take_subset)
  then show "p \<notin> property ` set items"
    using lk rankedList_item by blast
qed

lemma pairProfile_withoutId:
  "buildPreferenceProfile (Some [withoutId flatB, flatC]) =
     buildPreferenceProfile (Some [flatB, flatC])"
  by (simp add: pairProfile) (simp add: listing_defs profile_defs Let_def sqrt_2500000000 sqrt_100)

lemma liked_copy:
  "isLiked [withoutId flatB, flatC] flatBcopy"
  "\<not> isLiked [withoutId flatB, flatC] flatTwin"
  by (simp_all add: isLiked_def isSameProperty_def listing_defs)

lemma shown_copy:
  "renderRecommendations [flatBcopy, flatTwin] [withoutId flatB, flatC] =
     Shown [\<lparr>property = flatTwin, score = Num 100, isSurprise = False\<rparr>]"
proof -
  obtain prof where b: "buildPreferenceProfile (Some [withoutId flatB, flatC]) = Some prof"
    and c: "confidence prof = 40"
    by (simp add: pairProfile pairProfile_withoutId)
  have s: "calculateMatchScore flatTwin (Some prof) = Num 100"
    using score_twin_pair b by (simp add: pairProfile_withoutId)
  have p: "primaryList [flatBcopy, flatTwin] [withoutId flatB, flatC] prof =
      [\<lparr>property = flatTwin, score = Num 100, isSurprise = False\<rparr>]"
    by (simp add: primaryList_def liked_copy mkScored_def s sortByScore_def)
  have r: "rankedList [flatBcopy, flatTwin] [withoutId flatB, flatC] prof =
      [\<lparr>property = flatTwin, score = Num 100, isSurprise = False\<rparr>]"
    by (simp add: rankedList_def p c Let_def)
  show ?thesis
    by (simp add: renderRecommendations_def b r Let_def)
qed

theorem same_property_rule_witness:
  "\<not> truthy_str (id_field (withoutId flatB)) \<and> \<not> truthy_str (id_field flatBcopy)
   \<and> title (withoutId flatB) = title flatBcopy
   \<and> buyingPrice (withoutId flatB) = buyingPrice flatBcopy
   \<and> withoutId flatB \<noteq> flatBcopy
   \<and> isSameProperty (withoutId flatB) flatBcopy
   \<and> renderRecommendations [flatBcopy, flatTwin] [withoutId flatB, flatC] =
       Shown [\<lparr>property = flatTwin, score = Num 100, isSurprise = False\<rparr>]
   \<and> flatBcopy \<notin> property ` set [\<lparr>property = flatTwin, score = Num 100, isSurprise = False\<rparr>]
   \<and> flatBcopy \<notin> property ` set (rankedList [flatBcopy, flatTwin] [withoutId flatB, flatC] sampleProfile)
   \<and> isSameProperty flatA flatA \<and> \<not> isSameProperty flatA flatTwin"
  using same_property_rule [of "withoutId flatB" flatBcopy "withoutId flatB"
      "[withoutId flatB, flatC]" flatBcopy "[flatBcopy, flatTwin]" sampleProfile
      "[\<lparr>property = flatTwin, score = Num 100, isSurprise = False\<rparr>]"]
    same_property_rule [of flatA flatA] same_property_rule [of flatA flatTwin]
  by (simp add: shown_copy) (simp add: listing_defs truthy_str_def)

section \<open>The surprise recommendation\<close>

lemma hd_insertByScore:
  "hd (insertByScore x ys) =
     (case ys of [] \<Rightarrow> x
      | y # _ \<Rightarrow> if js_gt (js_sub (score y) (score x)) 0 then y else x)"
  by (cases ys) auto

lemma sortByScore_Cons: "sortByScore (x # xs) = insertByScore x (sortByScore xs)"
  by (simp add: sortByScore_def)

lemma sortByScore_Nil_iff: "sortByScore xs = [] \<longleftrightarrow> xs = []"
  using set_sortByScore [of xs] by (metis set_empty)

lemma hd_sortByScore_max:
  "xs \<noteq> [] \<Longrightarrow> \<forall>z \<in> set xs. \<exists>r. score z = Num r \<Longrightarrow>
     \<exists>m. score (hd (sortByScore xs)) = Num m \<and> (\<forall>z \<in> set xs. \<forall>r. score z = Num r \<longrightarrow> r \<le> m)"
proof (induction xs)
  case Nil
  then show ?case by simp
next
  case (Cons x xs)
  from Cons.prems obtain rx where rx: "score x = Num rx" by auto
  show ?case
  proof (cases "xs = []")
    case True
    then show ?thesis using rx by (simp add: sortByScore_def)
  next
    case False
    with Cons obtain m where m: "score (hd (sortByScore xs)) = Num m"
      and mx: "\<forall>z \<in> set xs. \<forall>r. score z = Num r \<longrightarrow> r \<le> m"
      by auto
    from False obtain y ys where ys: "sortByScore xs = y # ys"
      using sortByScore_Nil_iff [of xs] by (cases "sortByScore xs") auto
    with m have y: "score y = Num m" by simp
    show ?thesis
    proof (cases "m > rx")
      case True
      then have "hd (sortByScore (x # xs)) = y"
        by (simp add: sortByScore_Cons ys y rx js_sub_def)
      then show ?thesis using y mx rx True by auto
    next
      case False
      then have "hd (sortByScore (x # xs)) = x"
        by (simp add: sortByScore_Cons ys y rx js_sub_def)
      then show ?thesis using mx rx False by fastforce
    qed
  qed
qed

lemma in_band_finite: "js_ge s 45 \<Longrightarrow> js_lt s 60 \<Longrightarrow> \<exists>r. s = Num r \<and> 45 \<le> r \<and> r < 60"
  by (cases s) auto

lemma hd_sortByScore_in: "xs \<noteq> [] \<Longrightarrow> hd (sortByScore xs) \<in> set xs"
proof -
  assume "xs \<noteq> []"
  then have "sortByScore xs \<noteq> []" by (simp add: sortByScore_Nil_iff)
  then have "hd (sortByScore xs) \<in> set (sortByScore xs)" by (rule hd_in_set)
  then show ?thesis by (simp only: set_sortByScore)
qed

lemma hd_surprise:
  assumes ne: "surpriseProperties all liked prof \<noteq> []"
  shows "\<exists>r. score (hd (surpriseProperties all liked prof)) = Num r \<and> 45 \<le> r \<and> r < 60
     \<and> (\<forall>c \<in> set all. \<forall>r'.
           \<not> isLiked liked c
           \<and> \<not> list_ex (\<lambda>item. isSameProperty (property item) c) (primaryList all liked prof)
           \<and> calculateMatchScore c (Some prof) = Num r' \<and> 45 \<le> r' \<and> r' < 60
           \<longrightarrow> r' \<le> r)"
proof -
  define eligible where "eligible =
     (\<lambda>p. \<not> isLiked liked p
         \<and> \<not> list_ex (\<lambda>item. isSameProperty (property item) p) (primaryList all liked prof))"
  define cands where "cands =
     filter (\<lambda>item. js_ge (score item) 45 \<and> js_lt (score item) 60)
       (map (mkScored prof) (filter eligible all))"
  have sp: "surpriseProperties all liked prof = sortByScore cands"
    by (simp add: surpriseProperties_def cands_def eligible_def)
  have cne: "cands \<noteq> []"
    using ne sp by (simp add: sortByScore_Nil_iff)
  have inband: "\<And>z. z \<in> set cands \<Longrightarrow> js_ge (score z) 45 \<and> js_lt (score z) 60"
    by (simp add: cands_def)
  have fin: "\<forall>z \<in> set cands. \<exists>r. score z = Num r"
    using inband in_band_finite by blast
  obtain m where m: "score (hd (sortByScore cands)) = Num m"
    and mx: "\<forall>z \<in> set cands. \<forall>r. score z = Num r \<longrightarrow> r \<le> m"
    using hd_sortByScore_max [OF cne fin] by blast
  have "js_ge (Num m) 45 \<and> js_lt (Num m) 60"
    using inband [OF hd_sortByScore_in [OF cne]] m by simp
  then have band: "45 \<le> m \<and> m < 60" by simp
  have best: "\<forall>c \<in> set all. \<forall>r'.
           eligible c \<and> calculateMatchScore c (Some prof) = Num r' \<and> 45 \<le> r' \<and> r' < 60
           \<longrightarrow> r' \<le> m"
  proof (intro ballI allI impI)
    fix c r'
    assume c: "c \<in> set all"
      and h: "eligible c \<and> calculateMatchScore c (Some prof) = Num r' \<and> 45 \<le> r' \<and> r' < 60"
    have sc: "score (mkScored prof c) = Num r'"
      using h by (simp add: mkScored_def)
    have "mkScored prof c \<in> set cands"
      using c h sc by (simp add: cands_def)
    then show "r' \<le> m" using mx sc by blast
  qed
  show ?thesis
    unfolding sp using m band best unfolding eligible_def by blast
qed

text \<open>
  C4: the ranked list is the primary list (every entry scores at least 60 and is not flagged)
  followed by at most one entry flagged as surprise. A surprise is there only when the
  confidence is at least 60; it is a catalog listing that is not liked and not the same as a
  primary entry, its score lies in [45, 60), and no other such candidate scores higher.
\<close>

theorem wildcard_rule:
  "\<exists>W. rankedList all liked prof = primaryList all liked prof @ W
     \<and> length W \<le> 1
     \<and> (\<forall>x \<in> set (primaryList all liked prof). js_ge (score x) 60 \<and> \<not> isSurprise x)
     \<and> (\<forall>w \<in> set W.
          isSurprise w \<and> confidence prof \<ge> 60
          \<and> property w \<in> set all
          \<and> \<not> isLiked liked (property w)
          \<and> \<not> list_ex (\<lambda>item. isSameProperty (property item) (property w))
                 (primaryList all liked prof)
          \<and> score w = calculateMatchScore (property w) (Some prof)
          \<and> (\<exists>r. score w = Num r \<and> 45 \<le> r \<and> r < 60
               \<and> (\<forall>c \<in> set all. \<forall>r'.
                    \<not> isLiked liked c
                    \<and> \<not> list_ex (\<lambda>item. isSameProperty (property item) c)
                           (primaryList all liked prof)
                    \<and> calculateMatchScore c (Some prof) = Num r' \<and> 45 \<le> r' \<and> r' < 60
                    \<longrightarrow> r' \<le> r)))"
proof (cases "length (surpriseProperties all liked prof) > 0 \<and> confidence prof \<ge> 60")
  case False
  then have "rankedList all liked prof = primaryList all liked prof @ []"
    by (auto simp: rankedList_def Let_def)
  moreover have "\<forall>x \<in> set (primaryList all liked prof). js_ge (score x) 60 \<and> \<not> isSurprise x"
    using primaryList_item by blast
  ultimately show ?thesis by (intro exI [of _ "[]"]) simp
next
  case True
  let ?h = "hd (surpriseProperties all liked prof)"
  let ?w = "?h\<lparr>isSurprise := True\<rparr>"
  from True have ne: "surpriseProperties all liked prof \<noteq> []" by auto
  then have hin: "?h \<in> set (surpriseProperties all liked prof)" by simp
  have r: "rankedList all liked prof = primaryList all liked prof @ [?w]"
    using True by (simp add: rankedList_def Let_def)
  have p: "\<forall>x \<in> set (primaryList all liked prof). js_ge (score x) 60 \<and> \<not> isSurprise x"
    using primaryList_item by blast
  have w1: "isSurprise ?w \<and> confidence prof \<ge> 60 \<and> property ?w \<in> set all
      \<and> \<not> isLiked liked (property ?w)
      \<and> \<not> list_ex (\<lambda>item. isSameProperty (property item) (property ?w))
             (primaryList all liked prof)
      \<and> score ?w = calculateMatchScore (property ?w) (Some prof)"
    using True surpriseProperties_item [OF hin] by simp
  have w2: "\<exists>r. score ?w = Num r \<and> 45 \<le> r \<and> r < 60
       \<and> (\<forall>c \<in> set all. \<forall>r'.
            \<not> isLiked liked c
            \<and> \<not> list_ex (\<lambda>item. isSameProperty (property item) c)
                   (primaryList all liked prof)
            \<and> calculateMatchScore c (Some prof) = Num r' \<and> 45 \<le> r' \<and> r' < 60
            \<longrightarrow> r' \<le> r)"
    using hd_surprise [OF ne] by simp
  show ?thesis
    by (intro exI [of _ "[?w]"]) (use r p w1 w2 in simp)
qed

theorem wildcard_rule_witness:
  "rankedList [flatA, flatTwin, flatTiny, flatWild2, flatWild] [flatA] sampleProfile =
     primaryList [flatA, flatTwin, flatTiny, flatWild2, flatWild] [flatA] sampleProfile
       @ [\<lparr>property = flatWild, score = Num 50, isSurprise = True\<rparr>]
   \<and> confidence sampleProfile \<ge> 60
   \<and> calculateMatchScore flatWild2 (Some sampleProfile) = Num 48
   \<and> calculateMatchScore flatWild (Some sampleProfile) = Num 50"
  using wildcard_rule [of "[flatA, flatTwin, flatTiny, flatWild2, flatWild]" "[flatA]" sampleProfile]
  by (simp add: ranked_sample primary_sample confidence_sample score_wild2_sample
      score_wild_sample)

section \<open>Loading more listings\<close>

lemma random_index_bound:
  assumes "0 \<le> r" "r < 1"
  shows "nat \<lfloor>r * real (Suc n)\<rfloor> \<le> n"
proof -
  have "r * real (Suc n) < real (Suc n)"
    using assms by simp
  then have "\<lfloor>r * real (Suc n)\<rfloor> < int (Suc n)"
    by (simp add: floor_less_iff)
  then show ?thesis by simp
qed

lemma length_shuffleLoop: "length (shuffleLoop rnd k i xs) = length xs"
  by (induction i arbitrary: k xs) (simp_all add: Let_def)

lemma mset_shuffleLoop:
  "validRandom rnd \<Longrightarrow> i < length xs \<Longrightarrow> mset (shuffleLoop rnd k i xs) = mset xs"
proof (induction i arbitrary: k xs)
  case 0
  then show ?case by simp
next
  case (Suc i)
  let ?j = "nat \<lfloor>rnd k * real (Suc i + 1)\<rfloor>"
  let ?ys = "xs[Suc i := xs ! ?j, ?j := xs ! Suc i]"
  have "0 \<le> rnd k" "rnd k < 1"
    using Suc.prems(1) by (simp_all add: validRandom_def)
  then have "?j \<le> Suc i"
    using random_index_bound [of "rnd k" "Suc i"] by simp
  then have j: "?j < length xs" using Suc.prems(2) by simp
  have "mset ?ys = mset xs"
    using mset_swap [OF j Suc.prems(2)] .
  moreover have "i < length ?ys" using Suc.prems(2) by simp
  ultimately have "mset (shuffleLoop rnd (Suc k) i ?ys) = mset xs"
    using Suc.IH [OF Suc.prems(1), of ?ys "Suc k"] by simp
  then show ?case by (simp add: Let_def)
qed

lemma mset_take_subset: "mset (take n xs) \<subseteq># mset xs"
proof -
  have "mset xs = mset (take n xs) + mset (drop n xs)"
    by (metis append_take_drop_id mset_append)
  then show ?thesis by simp
qed

lemma length_pickRandomSubset:
  "length (pickRandomSubset rnd arr n) = min n (length arr)"
  by (simp add: pickRandomSubset_def length_shuffleLoop)

lemma mset_pickRandomSubset:
  assumes "validRandom rnd"
  shows "mset (pickRandomSubset rnd arr n) \<subseteq># mset arr"
proof (cases "arr = []")
  case True
  then show ?thesis by (simp add: pickRandomSubset_def)
next
  case False
  then have "length arr - 1 < length arr" by (cases arr) simp_all
  then have "mset (shuffleLoop rnd 0 (length arr - 1) arr) = mset arr"
    using mset_shuffleLoop [OF assms] by blast
  then show ?thesis
    unfolding pickRandomSubset_def using mset_take_subset by metis
qed

lemma properties_handleLike: "properties (handleLike s) = properties s"
  by (simp add: handleLike_def)

lemma properties_handleNope: "properties (handleNope s) = properties s"
  by (simp add: handleNope_def)

lemma loadMore_length:
  "length (properties s) \<le> MAX_TOTAL_SWIPES \<Longrightarrow>
     length (properties (snd (loadMoreProperties rnd s))) \<le> MAX_TOTAL_SWIPES"
  by (auto simp: loadMoreProperties_def Let_def length_pickRandomSubset)

lemma reachable_length: "reachable s \<Longrightarrow> length (properties s) \<le> MAX_TOTAL_SWIPES"
proof (induction rule: reachable.induct)
  case (start rnd catalog)
  then show ?case
    by (simp add: startSession_def length_pickRandomSubset MAX_CARDS_def MAX_TOTAL_SWIPES_def)
next
  case (like s)
  then show ?case by (simp add: properties_handleLike)
next
  case (nope s)
  then show ?case by (simp add: properties_handleNope)
next
  case (load s rnd)
  then show ?case by (simp add: loadMore_length)
qed

text \<open>
  C8: in every reachable session state, with a random source that returns values in
  [0, 1), loading more appends a batch of exactly min(15, 50 - shown, unseen) listings, a
  sub-multiset of the unseen candidates (each unseen entry is drawn at most once); the
  number of listings shown stays at most 50 before and after; and when no unseen candidate
  remains the batch is empty and the outcome offers only the results.
\<close>

theorem load_more_batch:
  assumes "reachable s" and "validRandom rnd"
  shows "\<exists>batch.
     properties (snd (loadMoreProperties rnd s)) = properties s @ batch
     \<and> length batch =
         min 15 (min (50 - length (properties s)) (length (unseenProperties s)))
     \<and> mset batch \<subseteq># mset (unseenProperties s)
     \<and> length (properties s) \<le> 50
     \<and> length (properties (snd (loadMoreProperties rnd s))) \<le> 50
     \<and> (unseenProperties s = [] \<longrightarrow>
          batch = [] \<and> forcesResults (fst (loadMoreProperties rnd s)))"
proof -
  have len: "length (properties s) \<le> 50"
    using reachable_length [OF assms(1)] by (simp add: MAX_TOTAL_SWIPES_def)
  have len': "length (properties (snd (loadMoreProperties rnd s))) \<le> 50"
    using loadMore_length [of s rnd] len by (simp add: MAX_TOTAL_SWIPES_def)
  show ?thesis
  proof (cases "length (properties s) \<ge> 50 \<or> unseenProperties s = []")
    case True
    then have "snd (loadMoreProperties rnd s) = s
        \<and> forcesResults (fst (loadMoreProperties rnd s))"
      by (auto simp: loadMoreProperties_def MAX_TOTAL_SWIPES_def Let_def)
    moreover have "min 15 (min (50 - length (properties s)) (length (unseenProperties s))) = 0"
      using True by auto
    ultimately show ?thesis using len by (intro exI [of _ "[]"]) simp
  next
    case False
    let ?n = "min 15 (min (50 - length (properties s)) (length (unseenProperties s)))"
    let ?batch = "pickRandomSubset rnd (unseenProperties s) ?n"
    have p: "properties (snd (loadMoreProperties rnd s)) = properties s @ ?batch"
      using False by (simp add: loadMoreProperties_def MAX_TOTAL_SWIPES_def Let_def)
    have l: "length ?batch = ?n"
      by (simp add: length_pickRandomSubset)
    have m: "mset ?batch \<subseteq># mset (unseenProperties s)"
      using mset_pickRandomSubset [OF assms(2)] .
    show ?thesis
      using False len len' by (intro exI [of _ ?batch]) (simp only: p l m, simp)
  qed
qed

lemma steadyRandom_valid: "validRandom steadyRandom"
  by (simp add: validRandom_def steadyRandom_def)

lemma shuffle_steady:
  "i < 99 \<Longrightarrow> shuffleLoop steadyRandom k i xs = xs"
proof (induction i arbitrary: k xs)
  case 0
  then show ?case by simp
next
  case (Suc i)
  have "\<lfloor>99 / 100 * real (Suc i + 1)\<rfloor> = int (Suc i)"
  proof (rule floor_unique)
    show "of_int (int (Suc i)) \<le> 99 / 100 * real (Suc i + 1)"
      using Suc.prems by simp
    show "99 / 100 * real (Suc i + 1) < of_int (int (Suc i)) + 1"
      by simp
  qed
  then have j: "nat \<lfloor>steadyRandom k * real (Suc i + 1)\<rfloor> = Suc i"
    unfolding steadyRandom_def by simp
  have "shuffleLoop steadyRandom k (Suc i) xs = shuffleLoop steadyRandom (Suc k) i xs"
    by (simp only: shuffleLoop.simps Let_def j list_update_id)
  then show ?case using Suc by simp
qed

lemma pick_steady:
  "length arr < 100 \<Longrightarrow> pickRandomSubset steadyRandom arr n = take n arr"
  by (simp add: pickRandomSubset_def shuffle_steady min_def)

lemma start16:
  "startSession steadyRandom catalog16 =
     \<lparr>allProperties = catalog16, properties = take 15 catalog16, currentIndex = 0,
      likedProperties = []\<rparr>"
  by (simp add: startSession_def pick_steady MAX_CARDS_def catalog16_def)

lemma props16: "properties (startSession steadyRandom catalog16) = take 15 catalog16"
  by (simp add: start16)

lemma same_card: "isSameProperty (catalogEntry a) (catalogEntry b) = (a = b \<or> a = [] \<or> b = [])"
  by (auto simp: isSameProperty_def catalogEntry_def mkListing_def truthy_str_def)

lemma unseen16:
  "unseenProperties (startSession steadyRandom catalog16) = [catalogEntry ''c16'']"
  by (simp add: start16 unseenProperties_def) (simp add: catalog16_def same_card)

lemma load16:
  "properties (snd (loadMoreProperties steadyRandom (startSession steadyRandom catalog16)))
     = catalog16"
  apply (simp add: loadMoreProperties_def unseen16 Let_def pick_steady)
  apply (simp add: start16 MAX_TOTAL_SWIPES_def)
  apply (simp add: catalog16_def)
  done

theorem load_more_batch_witness:
  "reachable (startSession steadyRandom catalog16) \<and> validRandom steadyRandom
   \<and> length (properties (startSession steadyRandom catalog16)) = 15
   \<and> unseenProperties (startSession steadyRandom catalog16) = [catalogEntry ''c16'']
   \<and> properties (snd (loadMoreProperties steadyRandom (startSession steadyRandom catalog16)))
       = properties (startSession steadyRandom catalog16) @ [catalogEntry ''c16'']"
proof -
  have r: "reachable (startSession steadyRandom catalog16)"
    using steadyRandom_valid by (rule reachable.start)
  obtain batch where b:
    "properties (snd (loadMoreProperties steadyRandom (startSession steadyRandom catalog16)))
       = properties (startSession steadyRandom catalog16) @ batch"
    using load_more_batch [OF r steadyRandom_valid] by blast
  have "batch = [catalogEntry ''c16'']"
    using b unfolding load16 props16 by (simp add: catalog16_def)
  then show ?thesis
    using r steadyRandom_valid b unfolding unseen16 props16 by (simp add: catalog16_def)
qed

section \<open>Alternate locations\<close>

lemma keys_bump: "fst ` set (bump al k) = insert k (fst ` set al)"
  by (induction al k rule: bump.induct) auto

lemma distinct_bump: "distinct (map fst al) \<Longrightarrow> distinct (map fst (bump al k))"
  by (induction al k rule: bump.induct) (auto simp: keys_bump)

lemma map_of_bump:
  "map_of (bump al k) =
     (map_of al)(k \<mapsto> (case map_of al k of None \<Rightarrow> 1 | Some c \<Rightarrow> c + 1))"
  by (induction al k rule: bump.induct) (auto simp: fun_eq_iff)

lemma distinct_foldl_bump:
  "distinct (map fst al) \<Longrightarrow> distinct (map fst (foldl bump al cats))"
  by (induction cats arbitrary: al) (simp_all add: distinct_bump)

lemma map_of_foldl_bump:
  "map_of (foldl bump al cats) k =
     (if k \<in> set cats \<or> map_of al k \<noteq> None
      then Some ((case map_of al k of None \<Rightarrow> 0 | Some c \<Rightarrow> c) + count_list cats k)
      else None)"
proof (induction cats arbitrary: al)
  case Nil
  then show ?case by (auto split: option.splits)
next
  case (Cons x cats)
  show ?case
    by (simp add: Cons.IH map_of_bump split: option.splits)
qed

lemma countCategories_entry:
  "(k, c) \<in> set (countCategories cats) \<longleftrightarrow> k \<in> set cats \<and> c = count_list cats k"
proof -
  have d: "distinct (map fst (countCategories cats))"
    unfolding countCategories_def using distinct_foldl_bump [of "[]" cats] by simp
  have "map_of (countCategories cats) k =
      (if k \<in> set cats then Some (count_list cats k) else None)"
    unfolding countCategories_def using map_of_foldl_bump [of "[]" cats k] by simp
  then show ?thesis
    using map_of_eq_Some_iff [OF d, of k c] by (auto split: if_splits)
qed

lemma distinct_keys_sortByCount:
  "distinct (map fst (sortByCount (countCategories cats)))"
proof -
  have d: "distinct (map fst (countCategories cats))"
    unfolding countCategories_def using distinct_foldl_bump [of "[]" cats] by simp
  have "mset (map fst (sortByCount (countCategories cats))) = mset (map fst (countCategories cats))"
    by (simp add: sortByCount_def)
  then show ?thesis using d mset_eq_imp_distinct_iff by blast
qed

lemma sortByCount_entry:
  "(k, c) \<in> set (sortByCount (countCategories cats)) \<longleftrightarrow> k \<in> set cats \<and> c = count_list cats k"
  by (simp add: sortByCount_def countCategories_entry)

lemma altThreshold_ge2: "2 \<le> altThreshold n"
  by (simp add: altThreshold_def)

text \<open>
  What the code computes: a location other than the primary one is an alternate exactly
  when its count reaches \<open>max 2 \<lfloor>0.15 * n\<rfloor>\<close>, so it needs both two occurrences and the
  15 percent share (rounded down).
\<close>

lemma alternatives_iff:
  assumes ne: "categories \<noteq> []"
  shows "c \<in> set (alternatives (calculateCategoryPreferences categories)) \<longleftrightarrow>
     Some c \<noteq> preferred (calculateCategoryPreferences categories)
     \<and> count_list categories c \<ge> altThreshold (length categories)"
proof -
  let ?sorted = "sortByCount (countCategories categories)"
  from ne obtain x where "x \<in> set categories" by (cases categories) auto
  then have "(x, count_list categories x) \<in> set ?sorted"
    by (simp add: sortByCount_entry)
  then obtain h t where ht: "?sorted = h # t" by (cases ?sorted) auto
  have dk: "distinct (map fst (h # t))"
    using distinct_keys_sortByCount [of categories] ht by simp
  have pref: "preferred (calculateCategoryPreferences categories) = Some (fst h)"
    using ne by (simp add: calculateCategoryPreferences_def Let_def ht)
  have alts: "alternatives (calculateCategoryPreferences categories) =
      map fst (filter (\<lambda>e. snd e \<ge> altThreshold (length categories)) t)"
    using ne by (simp add: calculateCategoryPreferences_def Let_def ht)
  have tl_iff: "\<And>n. (c, n) \<in> set t \<longleftrightarrow> c \<noteq> fst h \<and> c \<in> set categories \<and> n = count_list categories c"
  proof -
    fix n
    have "(c, n) \<in> set (h # t) \<longleftrightarrow> c \<in> set categories \<and> n = count_list categories c"
      using sortByCount_entry [of c n categories] ht by simp
    moreover have "(c, n) \<in> set t \<Longrightarrow> c \<noteq> fst h"
      using dk by (auto simp: image_iff)
    moreover have "c \<noteq> fst h \<Longrightarrow> (c, n) \<noteq> h" by auto
    ultimately show "(c, n) \<in> set t \<longleftrightarrow> c \<noteq> fst h \<and> c \<in> set categories \<and> n = count_list categories c"
      by auto
  qed
  have "c \<in> set (alternatives (calculateCategoryPreferences categories)) \<longleftrightarrow>
      (\<exists>n. (c, n) \<in> set t \<and> n \<ge> altThreshold (length categories))"
    unfolding alts by (auto simp: image_iff)
  also have "\<dots> \<longleftrightarrow> c \<noteq> fst h \<and> c \<in> set categories
      \<and> count_list categories c \<ge> altThreshold (length categories)"
    using tl_iff by auto
  also have "\<dots> \<longleftrightarrow> c \<noteq> fst h \<and> count_list categories c \<ge> altThreshold (length categories)"
  proof -
    have "count_list categories c \<ge> altThreshold (length categories) \<Longrightarrow> c \<in> set categories"
      using altThreshold_ge2 [of "length categories"] count_list_0_iff [of categories c]
      by (cases "c \<in> set categories") auto
    then show ?thesis by auto
  qed
  finally show ?thesis using pref by auto
qed

lemma profile_location:
  "buildPreferenceProfile (Some liked) = Some prof \<Longrightarrow>
     preferredCity prof = preferred (calculateCategoryPreferences (likedCities liked))
     \<and> alternativeCities prof = alternatives (calculateCategoryPreferences (likedCities liked))"
  by (auto simp: buildPreferenceProfile_def Let_def split: if_splits)

text \<open>
  C6: for every non-empty list of location samples, a location other than the primary one
  is listed as an alternate exactly when its number of occurrences is at least
  \<open>max 2 \<lfloor>0.15 * n\<rfloor>\<close>, where \<open>n\<close> is the number of samples; the same holds for the
  alternate locations of a built profile, with the locations of the liked listings as
  samples. Two occurrences and the 15 percent share (rounded down) are both needed.
\<close>

theorem alternates_rule:
  "(categories \<noteq> [] \<longrightarrow>
     (c \<in> set (alternatives (calculateCategoryPreferences categories)) \<longleftrightarrow>
        Some c \<noteq> preferred (calculateCategoryPreferences categories)
        \<and> count_list categories c \<ge> max 2 (nat \<lfloor>real (length categories) * 0.15\<rfloor>)))
   \<and> (buildPreferenceProfile (Some liked) = Some prof \<and> likedCities liked \<noteq> [] \<longrightarrow>
     (c \<in> set (alternativeCities prof) \<longleftrightarrow>
        Some c \<noteq> preferredCity prof
        \<and> count_list (likedCities liked) c
             \<ge> max 2 (nat \<lfloor>real (length (likedCities liked)) * 0.15\<rfloor>)))"
proof (intro conjI impI)
  assume "categories \<noteq> []"
  then show "c \<in> set (alternatives (calculateCategoryPreferences categories)) \<longleftrightarrow>
        Some c \<noteq> preferred (calculateCategoryPreferences categories)
        \<and> count_list categories c \<ge> max 2 (nat \<lfloor>real (length categories) * 0.15\<rfloor>)"
    using alternatives_iff [of categories c] by (simp add: altThreshold_def)
next
  assume h: "buildPreferenceProfile (Some liked) = Some prof \<and> likedCities liked \<noteq> []"
  then have p: "preferredCity prof = preferred (calculateCategoryPreferences (likedCities liked))"
    and a: "alternativeCities prof = alternatives (calculateCategoryPreferences (likedCities liked))"
    using profile_location [of liked prof] by simp_all
  show "c \<in> set (alternativeCities prof) \<longleftrightarrow>
        Some c \<noteq> preferredCity prof
        \<and> count_list (likedCities liked) c
             \<ge> max 2 (nat \<lfloor>real (length (likedCities liked)) * 0.15\<rfloor>)"
    unfolding p a using h alternatives_iff [of "likedCities liked" c]
    by (simp add: altThreshold_def)
qed

lemma cities_four_likes:
  "likedCities [flatA, flatB, flatC, flatWild] = [''Berlin'', ''Berlin'', ''Berlin'', ''Potsdam'']"
  by (simp add: listing_defs likedCities_def)

lemma four_cities:
  "calculateCategoryPreferences [''Berlin'', ''Berlin'', ''Berlin'', ''Potsdam''] =
     \<lparr>preferred = Some ''Berlin'', alternatives = [], consistency = 75\<rparr>"
  by (simp add: calculateCategoryPreferences_def countCategories_def sortByCount_def
      altThreshold_def Let_def round_def)

lemma alternatives_four_likes:
  "map_option (\<lambda>prof. (preferredCity prof, alternativeCities prof))
     (buildPreferenceProfile (Some [flatA, flatB, flatC, flatWild])) =
   Some (Some ''Berlin'', [])"
  by (simp add: buildPreferenceProfile_def Let_def cities_four_likes four_cities)

lemma twenty_cities:
  "calculateCategoryPreferences
     (replicate 15 ''A'' @ [''B'', ''B''] @ replicate 3 ''C'') =
     \<lparr>preferred = Some ''A'', alternatives = [''C''], consistency = 75\<rparr>"
  by (simp add: calculateCategoryPreferences_def countCategories_def sortByCount_def
      altThreshold_def Let_def round_def eval_nat_numeral)

lemma five_cities:
  "calculateCategoryPreferences [''Berlin'', ''Berlin'', ''Berlin'', ''Potsdam'', ''Potsdam''] =
     \<lparr>preferred = Some ''Berlin'', alternatives = [''Potsdam''], consistency = 60\<rparr>"
  by (simp add: calculateCategoryPreferences_def countCategories_def sortByCount_def
      altThreshold_def Let_def round_def)

lemma cities_five_likes:
  "likedCities [flatA, flatB, flatC, flatWild, flatWild2] =
     [''Berlin'', ''Berlin'', ''Berlin'', ''Potsdam'', ''Potsdam'']"
  by (simp add: listing_defs likedCities_def)

lemma alternatives_five_likes:
  "map_option (\<lambda>prof. (preferredCity prof, alternativeCities prof))
     (buildPreferenceProfile (Some [flatA, flatB, flatC, flatWild, flatWild2])) =
   Some (Some ''Berlin'', [''Potsdam''])"
  by (simp add: buildPreferenceProfile_def Let_def cities_five_likes five_cities)

theorem alternates_rule_witness:
  "likedCities [flatA, flatB, flatC, flatWild, flatWild2] =
     [''Berlin'', ''Berlin'', ''Berlin'', ''Potsdam'', ''Potsdam'']
   \<and> map_option (\<lambda>prof. (preferredCity prof, alternativeCities prof))
        (buildPreferenceProfile (Some [flatA, flatB, flatC, flatWild, flatWild2])) =
      Some (Some ''Berlin'', [''Potsdam''])
   \<and> ''Potsdam'' \<in> set (alternatives (calculateCategoryPreferences
        [''Berlin'', ''Berlin'', ''Berlin'', ''Potsdam'', ''Potsdam'']))
   \<and> count_list [''Berlin'', ''Berlin'', ''Berlin'', ''Potsdam'', ''Potsdam''] ''Potsdam'' = 2
   \<and> max 2 (nat \<lfloor>real (length [''Berlin'', ''Berlin'', ''Berlin'', ''Potsdam'', ''Potsdam'']) * 0.15\<rfloor>) = 2
   \<and> ''Potsdam'' \<notin> set (alternatives (calculateCategoryPreferences
        [''Berlin'', ''Berlin'', ''Berlin'', ''Potsdam'']))
   \<and> count_list [''Berlin'', ''Berlin'', ''Berlin'', ''Potsdam''] ''Potsdam'' = 1"
proof -
  obtain prof where b: "buildPreferenceProfile (Some [flatA, flatB, flatC, flatWild, flatWild2]) = Some prof"
    using alternatives_five_likes by auto
  have ne: "likedCities [flatA, flatB, flatC, flatWild, flatWild2] \<noteq> []"
    by (simp add: cities_five_likes)
  note r1 = alternates_rule [of "[''Berlin'', ''Berlin'', ''Berlin'', ''Potsdam'', ''Potsdam'']"
      "''Potsdam''" "[flatA, flatB, flatC, flatWild, flatWild2]" prof]
  note r2 = alternates_rule [of "[''Berlin'', ''Berlin'', ''Berlin'', ''Potsdam'']"
      "''Potsdam''" "[flatA, flatB, flatC, flatWild, flatWild2]" prof]
  have pc: "preferredCity prof = Some ''Berlin''" and ac: "alternativeCities prof = [''Potsdam'']"
    using alternatives_five_likes b by simp_all
  show ?thesis
    using r1 r2 ne
    by (simp add: b pc ac cities_five_likes five_cities four_cities)
qed

text \<open>
  Neither condition suffices alone. Of the four liked listings \<open>flatA\<close>, \<open>flatB\<close>,
  \<open>flatC\<close> and \<open>flatWild\<close>, three are in Berlin and one is in Potsdam: Potsdam holds 25
  percent of the likes, and the built profile lists no alternate. In twenty location
  samples with fifteen times A, twice B and three times C, B occurs twice and is not an
  alternate.
\<close>

theorem alternates_counterexample:
  "likedCities [flatA, flatB, flatC, flatWild] = [''Berlin'', ''Berlin'', ''Berlin'', ''Potsdam'']
   \<and> real (count_list [''Berlin'', ''Berlin'', ''Berlin'', ''Potsdam''] ''Potsdam'')
        \<ge> 0.15 * real (length [''Berlin'', ''Berlin'', ''Berlin'', ''Potsdam''])
   \<and> map_option (\<lambda>prof. (preferredCity prof, alternativeCities prof))
        (buildPreferenceProfile (Some [flatA, flatB, flatC, flatWild])) =
      Some (Some ''Berlin'', [])
   \<and> preferred (calculateCategoryPreferences
         (replicate 15 ''A'' @ [''B'', ''B''] @ replicate 3 ''C'')) = Some ''A''
   \<and> count_list (replicate 15 ''A'' @ [''B'', ''B''] @ replicate 3 ''C'') ''B'' \<ge> 2
   \<and> ''B'' \<notin> set (alternatives (calculateCategoryPreferences
         (replicate 15 ''A'' @ [''B'', ''B''] @ replicate 3 ''C'')))"
  unfolding cities_four_likes alternatives_four_likes twenty_cities
  by (simp add: eval_nat_numeral)

section \<open>Dynamic weights\<close>

text \<open>Each weight is within its bounds after the clamp, before the renormalisation.\<close>

lemma boundedWeight_bounds:
  "lo \<le> hi \<Longrightarrow>
     lo \<le> boundedWeight (real_of_int lo) (real_of_int hi) base sc tot
     \<and> boundedWeight (real_of_int lo) (real_of_int hi) base sc tot \<le> hi"
proof -
  assume lh: "lo \<le> hi"
  let ?x = "max (real_of_int lo) (min (real_of_int hi) (base * (sc / tot) * 4))"
  have "real_of_int lo \<le> ?x" by simp
  then have "round (real_of_int lo) \<le> round ?x" by (rule round_mono)
  moreover have "?x \<le> real_of_int hi" using lh by simp
  then have "round ?x \<le> round (real_of_int hi)" by (rule round_mono)
  ultimately show ?thesis by (simp add: boundedWeight_def)
qed

lemma sqrt_40000000000: "sqrt 40000000000 = 200000"
  by (rule real_sqrt_unique) simp_all

lemma sqrt_900: "sqrt 900 = 30"
  by (rule real_sqrt_unique) simp_all

lemma sqrt_9_4: "sqrt (9 / 4) = 3 / 2"
  by (rule real_sqrt_unique) (simp_all add: power2_eq_square)

lemma spreadProfile_stats:
  "likedCities [spread1, spread2, spread3, spread4] = [''Berlin'', ''Berlin'', ''Berlin'', ''Berlin'']"
  "likedPrices [spread1, spread2, spread3, spread4] = [100000, 100000, 500000, 500000]"
  "likedSqms [spread1, spread2, spread3, spread4] = [30, 30, 90, 90]"
  "likedRooms [spread1, spread2, spread3, spread4] = [1, 1, 4, 4]"
  by (simp_all add: listing_defs likedCities_def likedPrices_def likedSqms_def likedRooms_def)

lemma spread_std:
  "calculateStdDev [100000, 100000, 500000, 500000] 300000 = 200000"
  "calculateStdDev [30, 30, 90, 90] 60 = 30"
  "calculateStdDev [1, 1, 4, 4] (5 / 2) = 3 / 2"
  by (simp_all add: calculateStdDev_def sqrt_40000000000 sqrt_900 sqrt_9_4 power2_eq_square)

lemma spread_city:
  "calculateCategoryPreferences [''Berlin'', ''Berlin'', ''Berlin'', ''Berlin''] =
     \<lparr>preferred = Some ''Berlin'', alternatives = [], consistency = 100\<rparr>"
  by (simp add: calculateCategoryPreferences_def countCategories_def sortByCount_def
      altThreshold_def Let_def)

lemma spread_weights:
  "3 \<le> n \<Longrightarrow>
   calculateDynamicWeights 100 (Some 200000) (Some 300000) (Some 30) (Some 60)
       (Some (3 / 2)) (Some (5 / 2)) n =
     \<lparr>city_w = 41, price_w = 29, size_w = 24, rooms_w = 6\<rparr>"
  by (simp add: calculateDynamicWeights_def cv_of_def num_of_def consistencyScore_def
      boundedWeight_def Let_def round_def)

text \<open>
  C2: four liked listings in one city with widely varying prices, areas and room counts.
  The clamped weights are 35, 25, 20 and 5; the renormalisation to 100 that follows turns
  them into 41, 29, 24 and 6, so the location weight exceeds its bound of 35.
\<close>

theorem weights_leave_bounds:
  "length [spread1, spread2, spread3, spread4] \<ge> 3
   \<and> map_option weights (buildPreferenceProfile (Some [spread1, spread2, spread3, spread4])) =
       Some (Some \<lparr>city_w = 41, price_w = 29, size_w = 24, rooms_w = 6\<rparr>)
   \<and> (41::int) > 35"
  by (simp add: buildPreferenceProfile_def spreadProfile_stats Let_def average_def opt_if_def
      spread_std spread_city spread_weights)

text \<open>The weights always sum to 100.\<close>

lemma weights_sum_100:
  "city_w w + price_w w + size_w w + rooms_w w = 100"
  if "w = calculateDynamicWeights cc sdP avgP sdS avgS sdR avgR n"
  using that by (simp add: calculateDynamicWeights_def default_weights_def Let_def)

section \<open>Match score after a single like\<close>

text \<open>
  The within-range formula is \<open>NaN\<close> whenever minimum, maximum, mean and value coincide,
  and 100 at the mean of a proper range.
\<close>

lemma rangeScore_single_sample: "rangeScore minBuffer v v v v = NaN"
  by (simp add: rangeScore_def Let_def js_sub_def)

lemma rangeScore_at_mean:
  "mn < mx \<Longrightarrow> mn \<le> avg \<Longrightarrow> avg \<le> mx \<Longrightarrow> rangeScore minBuffer avg mn mx avg = Num 100"
  by (auto simp: rangeScore_def Let_def js_sub_def max_def)

text \<open>
  C1: a profile built from the single liked listing \<open>flatA\<close> has minimum, maximum and mean
  equal in price and in area. For \<open>flatTwin\<close>, another listing with exactly that price and
  area, the division \<open>0 / 0\<close> of the within-range formula is not guarded: the price score
  and the area score are \<open>NaN\<close>, both count as 0 in the weighted sum, and the match score is
  18.
\<close>

theorem nan_on_single_like:
  "map_option (\<lambda>prof. (minPrice prof, maxPrice prof, avgPrice prof, minSqm prof, maxSqm prof, avgSqm prof))
      (buildPreferenceProfile (Some [flatA])) =
     Some (Some 300000, Some 300000, Some 300000, Some 60, Some 60, Some 60)
   \<and> buyingPrice flatTwin = Some 300000 \<and> sqmOf flatTwin = Some 60
   \<and> priceScore flatTwin (the (buildPreferenceProfile (Some [flatA]))) = NaN
   \<and> sizeScore flatTwin (the (buildPreferenceProfile (Some [flatA]))) = NaN
   \<and> calculateMatchScore flatTwin (buildPreferenceProfile (Some [flatA])) = Num 18"
  apply (simp only: priceScore_twin_single sizeScore_twin_single score_twin_single)
  apply (simp only: singleProfile)
  apply (simp add: listing_defs)
  done

end
